theory Spec2Isabelle
  imports Main "HOL-Library.Word" "HOL-Library.Sublist"
begin

section \<open>Bytes, characters and the string helpers of fetch.cpp\<close>

text \<open>
  A \<^typ>\<open>char\<close> of HOL is one byte, as a C++ \<open>char\<close> or \<open>unsigned char\<close> is. Both
  \<open>std::string\<close> and \<open>std::vector<unsigned char>\<close> are byte lists; \<open>vecAppend\<close> and
  \<open>vecAppendRaw\<close> (lines 120-125) are list append.
\<close>

type_synonym bytes = "char list"

definition CR :: char where "CR = CHR 0x0D"
definition LF :: char where "LF = CHR 0x0A"
definition CRLF :: string where "CRLF = [CHR 0x0D, CHR 0x0A]"
definition DQ :: string where "DQ = [CHR 0x22]"

text \<open>
  \<open>std::isspace\<close> and \<open>std::tolower\<close> in the "C" locale, which the process runs in:
  the six white-space characters, and the 26 upper-case letters mapped to their lower-case
  partners, every other byte unchanged.
\<close>

definition isspace_c :: "char \<Rightarrow> bool" where
  "isspace_c c = (c = CHR '' '' \<or> c = CHR 0x09 \<or> c = CHR 0x0A \<or> c = CHR 0x0B
                  \<or> c = CHR 0x0C \<or> c = CHR 0x0D)"

definition upper_letters :: string where
  "upper_letters = ''ABCDEFGHIJKLMNOPQRSTUVWXYZ''"

definition lower_letters :: string where
  "lower_letters = ''abcdefghijklmnopqrstuvwxyz''"

definition isupper_c :: "char \<Rightarrow> bool" where
  "isupper_c c = (c \<in> set upper_letters)"

definition tolower_c :: "char \<Rightarrow> char" where
  "tolower_c c = (case map_of (zip upper_letters lower_letters) c of Some l \<Rightarrow> l | None \<Rightarrow> c)"

definition isdigit_c :: "char \<Rightarrow> bool" where
  "isdigit_c c = (c \<in> set ''0123456789'')"

definition digit_val :: "char \<Rightarrow> int" where
  "digit_val c = (case map_of (zip ''0123456789'' [0, 1, 2, 3, 4, 5, 6, 7, 8, 9]) c of
                    Some d \<Rightarrow> d | None \<Rightarrow> 0)"

text \<open>\<open>lower\<close> (line 71) and \<open>trim\<close> (line 76): \<open>trim\<close> first advances \<open>a\<close> from the
  left, then retreats \<open>b\<close> from the right, and returns \<open>s.substr(a, b - a)\<close>.\<close>

definition lower :: "string \<Rightarrow> string" where
  "lower s = map tolower_c s"

definition trim :: "string \<Rightarrow> string" where
  "trim s = rev (dropWhile isspace_c (rev (dropWhile isspace_c s)))"

section \<open>ResponseData and the header accumulator\<close>

record ResponseData =
  body :: bytes
  headers :: "string \<rightharpoonup> string list"
  status :: int
  url :: string
  statusText :: string

definition ResponseData_init :: ResponseData where
  "ResponseData_init = \<lparr> body = [], headers = Map.empty, status = 0, url = [], statusText = [] \<rparr>"

definition resetHop :: "ResponseData \<Rightarrow> ResponseData" where
  "resetHop r = r\<lparr> headers := Map.empty \<rparr>"

text \<open>Line 94: trailing CR and LF bytes are popped from the back of the line.\<close>

definition strip_crlf :: "string \<Rightarrow> string" where
  "strip_crlf raw = rev (dropWhile (\<lambda>c. c = CR \<or> c = LF) (rev raw))"

text \<open>
  \<open>iss >> status\<close> on a \<open>long\<close> (line 101), once the stream has skipped white space and
  has a character left: an optional sign, then decimal digits. The triple is the value
  stored, whether \<open>failbit\<close> was set, and the unread rest. With no digit the value is 0
  and the read fails; a value outside the 64-bit range is clamped to the nearest bound and
  the read fails as well.
\<close>

definition decimal :: "string \<Rightarrow> int" where
  "decimal ds = foldl (\<lambda>acc c. 10 * acc + digit_val c) 0 ds"

definition extract_long :: "string \<Rightarrow> int \<times> bool \<times> string" where
  "extract_long s =
     (let neg = (s \<noteq> [] \<and> hd s = CHR ''-'');
          s1 = (if s \<noteq> [] \<and> (hd s = CHR ''-'' \<or> hd s = CHR ''+'') then tl s else s);
          ds = takeWhile isdigit_c s1;
          rest = dropWhile isdigit_c s1;
          mag = decimal ds
      in if ds = [] then (0, True, rest)
         else if neg \<and> mag > 2 ^ 63 then (- (2 ^ 63), True, rest)
         else if \<not> neg \<and> mag > 2 ^ 63 - 1 then (2 ^ 63 - 1, True, rest)
         else (if neg then - mag else mag, False, rest))"

text \<open>
  Lines 99-103: \<open>iss >> proto\<close> reads the first white-space delimited word,
  \<open>iss >> status\<close> the number, \<open>std::getline\<close> the rest up to a line feed. When the
  stream is exhausted before the number starts, the extraction does not run and the old
  status stays; when a read has failed, \<open>getline\<close> reads nothing and \<open>rest\<close> stays
  empty. The result is the new status and the new status text.
\<close>

definition parse_status_line :: "string \<Rightarrow> int \<Rightarrow> int \<times> string" where
  "parse_status_line line old_status =
     (let r1 = dropWhile (\<lambda>c. \<not> isspace_c c) (dropWhile isspace_c line);
          r2 = dropWhile isspace_c r1
      in if r2 = [] then (old_status, [])
         else (case extract_long r2 of
                 (v, failed, r3) \<Rightarrow>
                   (v, if failed then [] else trim (takeWhile (\<lambda>c. c \<noteq> LF) r3))))"

text \<open>Lines 107-110: the key and the value on either side of the first colon.\<close>

definition header_key :: "string \<Rightarrow> string" where
  "header_key line = lower (trim (takeWhile (\<lambda>c. c \<noteq> CHR '':'') line))"

definition header_val :: "string \<Rightarrow> string" where
  "header_val line = trim (tl (dropWhile (\<lambda>c. c \<noteq> CHR '':'') line))"

definition push_header :: "(string \<rightharpoonup> string list) \<Rightarrow> string \<Rightarrow> string \<Rightarrow> (string \<rightharpoonup> string list)" where
  "push_header m k v = m(k \<mapsto> (case m k of None \<Rightarrow> [] | Some vs \<Rightarrow> vs) @ [v])"

definition addHeaderLine :: "ResponseData \<Rightarrow> string \<Rightarrow> ResponseData" where
  "addHeaderLine r raw =
     (let line = strip_crlf raw
      in if line = [] then r
         else if take 5 line = ''HTTP/'' then
           (case parse_status_line line (status (resetHop r)) of
              (st, txt) \<Rightarrow> (resetHop r)\<lparr> status := st, statusText := txt \<rparr>)
         else if CHR '':'' \<notin> set line then r
         else if header_key line \<noteq> [] then
           r\<lparr> headers := push_header (headers r) (header_key line) (header_val line) \<rparr>
         else r)"

section \<open>Values handed over by the caller\<close>

text \<open>
  A \<open>Napi::Value\<close> as far as this file inspects it: a byte buffer, any other object with
  its properties in the order they were added to it, or a value that is not an
  object. Each carries the text that \<open>ToString().Utf8Value()\<close> returns for it. A buffer
  is tested with \<open>IsBuffer\<close> before \<open>IsObject\<close> wherever both are asked.
\<close>

datatype napi_value =
    Buffer bytes string
  | Object "(string \<times> napi_value) list" string
  | Prim string

type_synonym napi_object = "(string \<times> napi_value) list"

fun IsBuffer :: "napi_value \<Rightarrow> bool" where
  "IsBuffer (Buffer b t) = True"
| "IsBuffer (Object ps t) = False"
| "IsBuffer (Prim t) = False"

fun Utf8Value :: "napi_value \<Rightarrow> string" where
  "Utf8Value (Buffer b t) = t"
| "Utf8Value (Object ps t) = t"
| "Utf8Value (Prim t) = t"

fun Data :: "napi_value \<Rightarrow> bytes" where
  "Data (Buffer b t) = b"
| "Data (Object ps t) = []"
| "Data (Prim t) = []"

definition Has :: "napi_object \<Rightarrow> string \<Rightarrow> bool" where
  "Has ps k = (map_of ps k \<noteq> None)"

definition Get :: "napi_object \<Rightarrow> string \<Rightarrow> napi_value" where
  "Get ps k = (case map_of ps k of Some v \<Rightarrow> v | None \<Rightarrow> Prim ''undefined'')"

text \<open>
  \<open>GetPropertyNames\<close> hands back the keys as the JavaScript runtime enumerates the
  properties of an object: the keys that are array indices (the decimal numeral, without
  leading zeros, of an integer from 0 to \<open>2 ^ 32 - 2\<close>) come first in ascending numeric
  order, the other keys follow in the order they were added.
\<close>

definition is_array_index :: "string \<Rightarrow> bool" where
  "is_array_index k =
     (k \<noteq> [] \<and> list_all isdigit_c k \<and> (k = ''0'' \<or> hd k \<in> set ''123456789'')
      \<and> decimal k \<le> 2 ^ 32 - 2)"

definition GetPropertyNames :: "napi_object \<Rightarrow> string list" where
  "GetPropertyNames ps =
     sort_key decimal (filter is_array_index (map fst ps))
     @ filter (\<lambda>k. \<not> is_array_index k) (map fst ps)"

section \<open>The multipart encoder\<close>

text \<open>
  The lambda \<open>flushDataPart\<close> (lines 152-169) with the variables it captures as
  arguments. \<open>data\<close> is \<open>None\<close> while \<open>dataPtr\<close> is null; the bytes are appended
  under \<open>dataPtr && dataLen\<close>, and appending no byte changes nothing.
\<close>

definition flushDataPart ::
  "string \<Rightarrow> string \<Rightarrow> string \<Rightarrow> bytes option \<Rightarrow> string \<Rightarrow> bool \<Rightarrow> bytes \<Rightarrow> bytes" where
  "flushDataPart name filename contentType data textVal isFile outBody =
     (let head = ''Content-Disposition: form-data; name='' @ DQ @ name @ DQ
      in if isFile then
           (let filename' = (if filename = [] then ''blob'' else filename);
                contentType' = (if contentType = [] then ''application/octet-stream''
                                else contentType);
                head' = head @ ''; filename='' @ DQ @ filename' @ DQ @ CRLF
                        @ ''Content-Type: '' @ contentType' @ CRLF @ CRLF
            in outBody @ head' @ (case data of Some d \<Rightarrow> d | None \<Rightarrow> []) @ CRLF)
         else outBody @ (head @ CRLF @ CRLF) @ textVal @ CRLF)"

text \<open>Lines 177-192: where a descriptor object's bytes or text come from.\<close>

definition descriptor_payload :: "napi_value \<Rightarrow> napi_object \<Rightarrow> bytes option \<times> string" where
  "descriptor_payload v o' =
     (if Has o' ''value'' \<and> IsBuffer (Get o' ''value'') then (Some (Data (Get o' ''value'')), [])
      else if Has o' ''data'' \<and> IsBuffer (Get o' ''data'') then (Some (Data (Get o' ''data'')), [])
      else if Has o' ''buffer'' \<and> IsBuffer (Get o' ''buffer'') then
        (Some (Data (Get o' ''buffer'')), [])
      else if Has o' ''value'' then (None, Utf8Value (Get o' ''value''))
      else (None, Utf8Value v))"

text \<open>One round of the loop of lines 141-202, for the property \<open>name\<close>.\<close>

definition appendField :: "napi_object \<Rightarrow> string \<Rightarrow> bytes \<Rightarrow> string \<Rightarrow> bytes" where
  "appendField formObj outBoundary outBody name =
     (let v = Get formObj name;
          out1 = outBody @ ''--'' @ outBoundary @ CRLF
      in case v of
           Buffer b t \<Rightarrow> flushDataPart name [] [] (Some b) [] True out1
         | Object o' t \<Rightarrow>
             (let payload = descriptor_payload v o';
                  filename = (if Has o' ''filename'' then Utf8Value (Get o' ''filename'') else []);
                  contentType = (if Has o' ''contentType'' then Utf8Value (Get o' ''contentType'')
                                 else [])
              in if (case fst payload of Some d \<Rightarrow> d \<noteq> [] | None \<Rightarrow> False)
                 then flushDataPart name filename contentType (fst payload) (snd payload) True out1
                 else flushDataPart name filename contentType (fst payload) (snd payload) False out1)
         | Prim t \<Rightarrow> flushDataPart name [] [] None t False out1)"

text \<open>
  \<open>buildMultipartFromNapi\<close> (lines 136-204). \<open>outBoundary\<close> is what \<open>randomBoundary()\<close>
  returned for this request; \<open>outBody\<close> is the vector the caller passes in.
\<close>

definition buildMultipartFromNapi :: "napi_object \<Rightarrow> bytes \<Rightarrow> string \<Rightarrow> bytes" where
  "buildMultipartFromNapi formObj outBody outBoundary =
     foldl (appendField formObj outBoundary) outBody (GetPropertyNames formObj)
       @ ''--'' @ outBoundary @ ''--'' @ CRLF"

section \<open>The worker\<close>

text \<open>
  The options object after \<open>getBool\<close> and \<open>getInt64\<close> have read its scalars:
  \<open>opt_headers\<close> and \<open>opt_formData\<close> are present when the property exists and is an
  object, \<open>opt_onData\<close> and \<open>opt_onProgress\<close> when it is a function.
\<close>

record options =
  opt_headers :: "napi_object option"
  opt_decompress :: bool
  opt_maxBodySize :: int
  opt_body :: "napi_value option"
  opt_formData :: "napi_object option"
  opt_onData :: bool
  opt_onProgress :: bool

text \<open>
  The fields of \<open>FetchWorker\<close> that the sinks and the header list read, named as in
  the source without the trailing underscore (\<open>reqBody\<close> is \<open>body_\<close> and
  \<open>abortFlag\<close> is \<open>abort_\<close>). \<open>streaming\<close> stands for
  \<open>streaming_ && tsfnData_\<close> and \<open>wantProgress\<close> for \<open>wantProgress_ && tsfnProg_\<close>:
  the constructor sets each pair together. \<open>data_calls\<close> and \<open>progress_calls\<close>
  record what was handed to the two thread-safe functions: the chunks, and the four
  doubles \<open>dn\<close>, \<open>dt\<close>, \<open>un\<close>, \<open>ut\<close> of each progress report.
\<close>

record FetchWorker =
  decompress :: bool
  maxBodySize :: int
  haveUserUA :: bool
  haveAcceptEnc :: bool
  haveConn :: bool
  haveExpect :: bool
  haveContentType :: bool
  streaming :: bool
  wantProgress :: bool
  headersKVs :: "string list"
  reqBody :: bytes
  useMultipart :: bool
  multipartBody :: bytes
  multipartBoundary :: string
  resp :: ResponseData
  abortFlag :: bool
  downloaded :: "64 word"
  data_calls :: "bytes list"
  progress_calls :: "(int \<times> int \<times> int \<times> int) list"

text \<open>The constructor (lines 208-267); \<open>boundary\<close> is the result of \<open>randomBoundary()\<close>.\<close>

definition header_kvs :: "napi_object \<Rightarrow> string list" where
  "header_kvs h = map (\<lambda>k. k @ '': '' @ Utf8Value (Get h k))
                      (filter (\<lambda>k. k \<noteq> []) (GetPropertyNames h))"

definition FetchWorker_new :: "options \<Rightarrow> string \<Rightarrow> FetchWorker" where
  "FetchWorker_new opts boundary =
     (let h = (case opt_headers opts of Some ps \<Rightarrow> ps | None \<Rightarrow> []);
          have = (\<lambda>a b. opt_headers opts \<noteq> None \<and> (Has h a \<or> Has h b));
          form = opt_formData opts
      in \<lparr> decompress = opt_decompress opts,
           maxBodySize = opt_maxBodySize opts,
           haveUserUA = have ''User-Agent'' ''user-agent'',
           haveAcceptEnc = have ''Accept-Encoding'' ''accept-encoding'',
           haveConn = have ''Connection'' ''connection'',
           haveExpect = have ''Expect'' ''expect'',
           haveContentType = have ''Content-Type'' ''content-type'',
           streaming = opt_onData opts,
           wantProgress = opt_onProgress opts,
           headersKVs = header_kvs h,
           reqBody = (if form \<noteq> None then []
                    else case opt_body opts of
                           None \<Rightarrow> []
                         | Some v \<Rightarrow> (if IsBuffer v then Data v else Utf8Value v)),
           useMultipart = (form \<noteq> None),
           multipartBody = (case form of None \<Rightarrow> []
                             | Some f \<Rightarrow> buildMultipartFromNapi f [] boundary),
           multipartBoundary = (if form \<noteq> None then boundary else []),
           resp = ResponseData_init,
           abortFlag = False,
           downloaded = 0,
           data_calls = [],
           progress_calls = [] \<rparr>)"

text \<open>The header list \<open>hdrs\<close> that \<open>Execute\<close> builds (lines 301-322), in append order.\<close>

definition request_headers :: "FetchWorker \<Rightarrow> string list" where
  "request_headers w =
     (if \<not> haveUserUA w then [''User-Agent: undici/6 naruyaizumi''] else [])
     @ (if \<not> haveAcceptEnc w \<and> decompress w then [''Accept-Encoding: br, gzip, deflate'']
        else [])
     @ (if \<not> haveConn w then [''Connection: keep-alive''] else [])
     @ (if \<not> haveExpect w then [''Expect:''] else [])
     @ (if useMultipart w \<and> \<not> haveContentType w
        then [''Content-Type: multipart/form-data; boundary='' @ multipartBoundary w] else [])
     @ headersKVs w"

section \<open>The three sinks\<close>

text \<open>
  \<open>writeBody\<close> (lines 535-564) on the \<open>n = size * nmemb\<close> bytes of \<open>chunk\<close>. The sum
  \<open>resp_.body.size() + n\<close> is computed in \<open>size_t\<close> and cast to \<open>long long\<close>. \<open>ok\<close>
  says that the call inside the \<open>try\<close> block does not throw: \<open>BlockingCall\<close> when
  streaming, the allocation of \<open>insert\<close> otherwise. \<open>insert\<close> also throws
  \<open>std::length_error\<close> when the vector would grow beyond \<open>max_size()\<close>. Every
  \<open>catch\<close> returns 0 with nothing stored.
\<close>

definition vector_max_size :: nat where
  "vector_max_size = 2 ^ 63 - 1"

definition writeBody :: "FetchWorker \<Rightarrow> bytes \<Rightarrow> bool \<Rightarrow> nat \<times> FetchWorker" where
  "writeBody w chunk ok =
     (if abortFlag w then (0, w)
      else
        (let n = length chunk
         in if streaming w then
              (if ok then (n, w\<lparr> data_calls := data_calls w @ [chunk],
                                 downloaded := downloaded w + word_of_nat n \<rparr>)
               else (0, w))
            else if maxBodySize w \<ge> 0
                    \<and> sint (word_of_nat (length (body (resp w)) + n) :: 64 word) > maxBodySize w
              then (0, w)
            else if ok \<and> length (body (resp w)) + n \<le> vector_max_size then
              (n, w\<lparr> resp := (resp w)\<lparr> body := body (resp w) @ chunk \<rparr>,
                      downloaded := downloaded w + word_of_nat n \<rparr>)
            else (0, w)))"

text \<open>\<open>writeHeader\<close> (lines 566-570).\<close>

definition writeHeader :: "FetchWorker \<Rightarrow> string \<Rightarrow> nat \<times> FetchWorker" where
  "writeHeader w buffer = (length buffer, w\<lparr> resp := addHeaderLine (resp w) buffer \<rparr>)"

text \<open>
  Line 576 casts each counter, a 64-bit \<open>curl_off_t\<close>, to \<open>double\<close>. A double holds
  53 significant bits: an integer below \<open>2 ^ 53\<close> in magnitude is kept, a larger one is
  rounded to the nearest multiple of \<open>2 ^ e\<close>, ties to the even multiple, where \<open>e\<close> is
  the number of bits beyond 53 (at most 11 for a 64-bit value). \<open>to_double\<close> is the
  integer value of the resulting double.
\<close>

definition to_double :: "int \<Rightarrow> int" where
  "to_double x =
     (let m = \<bar>x\<bar>;
          e = length (filter (\<lambda>i. 2 ^ (53 + i) \<le> m) [0..<11])
      in if e = 0 then x
         else
           (let q = m div 2 ^ e;
                r = m mod 2 ^ e;
                half = 2 ^ (e - 1);
                q' = (if r > half \<or> (r = half \<and> odd q) then q + 1 else q)
            in sgn x * (q' * 2 ^ e)))"

text \<open>
  \<open>onProgress\<close> (lines 572-590). A throwing \<open>NonBlockingCall\<close> (\<open>ok\<close> false) is
  swallowed by the empty \<open>catch\<close>.
\<close>

definition onProgress :: "FetchWorker \<Rightarrow> int \<Rightarrow> int \<Rightarrow> int \<Rightarrow> int \<Rightarrow> bool \<Rightarrow> int \<times> FetchWorker" where
  "onProgress w dltotal dlnow ultotal ulnow ok =
     (if abortFlag w then (1, w)
      else (0, if wantProgress w \<and> ok
               then w\<lparr> progress_calls := progress_calls w
                          @ [(to_double dlnow, to_double dltotal,
                              to_double ulnow, to_double ultotal)] \<rparr>
               else w))"

section \<open>The transfer\<close>

text \<open>
  What happens while \<open>curl_easy_perform\<close> (line 366) runs, as a list of events: the
  caller invokes the function made by \<open>makeAbort\<close> (line 518), or the transport layer
  invokes one of the three callbacks installed in lines 356-364. The transport layer
  follows libcurl's callback contract: a write or header callback that returns a count
  other than the one it was given ends the transfer with \<open>CURLE_WRITE_ERROR\<close>, a
  progress callback that returns nonzero ends it with \<open>CURLE_ABORTED_BY_CALLBACK\<close>, and
  the progress callback is invoked only when \<open>CURLOPT_NOPROGRESS\<close> is 0, that is when
  \<open>wantProgress_\<close> holds (line 364).
\<close>

datatype CURLcode = CURLE_OK | CURLE_WRITE_ERROR | CURLE_ABORTED_BY_CALLBACK | CURLE_other nat

datatype event =
    CallAbort
  | HeaderLine string
  | BodyChunk bytes bool
  | ProgressTick int int int int bool

fun dispatch :: "event \<Rightarrow> FetchWorker \<Rightarrow> CURLcode option \<times> FetchWorker" where
  "dispatch CallAbort w = (None, w\<lparr> abortFlag := True \<rparr>)"
| "dispatch (HeaderLine l) w =
     (case writeHeader w l of
        (r, w') \<Rightarrow> (if r \<noteq> length l then Some CURLE_WRITE_ERROR else None, w'))"
| "dispatch (BodyChunk c ok) w =
     (case writeBody w c ok of
        (r, w') \<Rightarrow> (if r \<noteq> length c then Some CURLE_WRITE_ERROR else None, w'))"
| "dispatch (ProgressTick dltotal dlnow ultotal ulnow ok) w =
     (if wantProgress w then
        (case onProgress w dltotal dlnow ultotal ulnow ok of
           (r, w') \<Rightarrow> (if r \<noteq> 0 then Some CURLE_ABORTED_BY_CALLBACK else None, w'))
      else (None, w))"

text \<open>The events in order, until one of them stops the transfer.\<close>

fun run_sinks :: "event list \<Rightarrow> FetchWorker \<Rightarrow> CURLcode option \<times> FetchWorker" where
  "run_sinks [] w = (None, w)"
| "run_sinks (e # es) w =
     (case dispatch e w of
        (Some rc, w') \<Rightarrow> (Some rc, w')
      | (None, w') \<Rightarrow> run_sinks es w')"

text \<open>\<open>rc_end\<close> is the transport layer's own result when no callback stops it.\<close>

definition curl_easy_perform :: "event list \<Rightarrow> CURLcode \<Rightarrow> FetchWorker \<Rightarrow> CURLcode \<times> FetchWorker" where
  "curl_easy_perform es rc_end w =
     (case run_sinks es w of
        (Some rc, w') \<Rightarrow> (rc, w')
      | (None, w') \<Rightarrow> (rc_end, w'))"

text \<open>
  One run of \<open>Execute\<close> as the environment determines it: whether \<open>curl_easy_init\<close>
  and \<open>curl_slist_append\<close> succeed, the events of the transfer, the transport's result,
  and what \<open>curl_easy_getinfo\<close> reports afterwards.
\<close>

record transfer =
  easy_init_ok :: bool
  slist_append_ok :: bool
  events :: "event list"
  transport_rc :: CURLcode
  response_code :: int
  effective_url :: "string option"

text \<open>The four \<open>std::runtime_error\<close>s that \<open>Execute\<close> throws, and their messages.\<close>

datatype fetch_error =
    EasyInitFailed
  | SlistAppendFailed
  | RequestAborted
  | CurlPerformError CURLcode

fun what :: "(CURLcode \<Rightarrow> string) \<Rightarrow> fetch_error \<Rightarrow> string" where
  "what strerror EasyInitFailed = ''curl_easy_init failed''"
| "what strerror SlistAppendFailed = ''curl_slist_append failed''"
| "what strerror RequestAborted = ''request aborted''"
| "what strerror (CurlPerformError rc) = ''curl perform error: '' @ strerror rc"

text \<open>The \<open>switch\<close> of lines 382-394.\<close>

definition default_status_text :: "int \<Rightarrow> string" where
  "default_status_text code =
     (if code = 200 then ''OK''
      else if code = 201 then ''Created''
      else if code = 204 then ''No Content''
      else if code = 301 then ''Moved Permanently''
      else if code = 302 then ''Found''
      else if code = 400 then ''Bad Request''
      else if code = 401 then ''Unauthorized''
      else if code = 403 then ''Forbidden''
      else if code = 404 then ''Not Found''
      else if code = 500 then ''Internal Server Error''
      else [])"

text \<open>Lines 372-395: what \<open>Execute\<close> stores in \<open>resp_\<close> after a successful perform.\<close>

definition finish_response :: "transfer \<Rightarrow> ResponseData \<Rightarrow> ResponseData" where
  "finish_response t r =
     (let r1 = r\<lparr> status := response_code t \<rparr>;
          r2 = (case effective_url t of Some eff \<Rightarrow> r1\<lparr> url := eff \<rparr> | None \<Rightarrow> r1)
      in if statusText r2 = [] then r2\<lparr> statusText := default_status_text (status r2) \<rparr>
         else r2)"

text \<open>
  \<open>Execute\<close> (lines 274-396). \<open>Inl\<close> is the exception that rejects the promise in
  \<open>OnError\<close>; \<open>Inr\<close> is the worker whose \<open>resp_\<close> \<open>OnOK\<close> hands to the caller.
\<close>

definition Execute :: "transfer \<Rightarrow> FetchWorker \<Rightarrow> fetch_error + FetchWorker" where
  "Execute t w =
     (if \<not> easy_init_ok t then Inl EasyInitFailed
      else if \<not> slist_append_ok t \<and> request_headers w \<noteq> [] then Inl SlistAppendFailed
      else
        (case curl_easy_perform (events t) (transport_rc t) w of
           (rc, w') \<Rightarrow>
             if abortFlag w' then Inl RequestAborted
             else if rc \<noteq> CURLE_OK then Inl (CurlPerformError rc)
             else Inr (w'\<lparr> resp := finish_response t (resp w') \<rparr>)))"

section \<open>Vocabulary of the claims\<close>

text \<open>
  A status line is a line that \<open>addHeaderLine\<close> treats as one (line 97); a well-formed
  header line is one that reaches line 111 with a non-empty key. \<open>grouped\<close> is the
  mapping the specification describes: each lower-cased, trimmed name with the trimmed
  values of its lines in order. \<open>reason_phrase\<close> is the status text a status line leaves.
\<close>

definition is_status_line :: "string \<Rightarrow> bool" where
  "is_status_line raw = (take 5 (strip_crlf raw) = ''HTTP/'')"

definition line_key :: "string \<Rightarrow> string" where
  "line_key raw = header_key (strip_crlf raw)"

definition line_val :: "string \<Rightarrow> string" where
  "line_val raw = header_val (strip_crlf raw)"

definition well_formed_header :: "string \<Rightarrow> bool" where
  "well_formed_header raw =
     (\<not> is_status_line raw \<and> CHR '':'' \<in> set (strip_crlf raw) \<and> line_key raw \<noteq> [])"

definition grouped :: "string list \<Rightarrow> (string \<rightharpoonup> string list)" where
  "grouped ls k = (if k \<in> line_key ` set ls
                   then Some (map line_val (filter (\<lambda>l. line_key l = k) ls)) else None)"

fun header_lines :: "event list \<Rightarrow> string list" where
  "header_lines [] = []"
| "header_lines (HeaderLine l # es) = l # header_lines es"
| "header_lines (e # es) = header_lines es"

definition reason_phrase :: "string \<Rightarrow> string" where
  "reason_phrase raw =
     (if is_status_line raw then snd (parse_status_line (strip_crlf raw) 0) else [])"

text \<open>
  The wire format of section 4.2 of the specification: each part after a delimiter line
  with the boundary token, then the closing marker. \<open>part_for\<close> says that a part starts
  with the \<open>Content-Disposition\<close> header of the named field.
\<close>

definition multipart_template :: "string \<Rightarrow> bytes list \<Rightarrow> bytes" where
  "multipart_template b parts =
     concat (map (\<lambda>p. ''--'' @ b @ CRLF @ p) parts) @ ''--'' @ b @ ''--'' @ CRLF"

definition part_for :: "string \<Rightarrow> bytes \<Rightarrow> bool" where
  "part_for name p = prefix (''Content-Disposition: form-data; name='' @ DQ @ name @ DQ) p"

section \<open>Example inputs\<close>

definition example_options :: options where
  "example_options = \<lparr> opt_headers = None, opt_decompress = True, opt_maxBodySize = 4,
      opt_body = None, opt_formData = None, opt_onData = False, opt_onProgress = True \<rparr>"

definition example_worker :: FetchWorker where
  "example_worker = FetchWorker_new example_options ''----LioraFormBoundary1a2b3c''"

definition example_transfer :: "event list \<Rightarrow> transfer" where
  "example_transfer es = \<lparr> easy_init_ok = True, slist_append_ok = True, events = es,
      transport_rc = CURLE_OK, response_code = 200, effective_url = Some ''http://h/'' \<rparr>"

definition example_loaded :: FetchWorker where
  "example_loaded = example_worker\<lparr> resp := (resp example_worker)\<lparr> body := ''abc'' \<rparr>,
                                     downloaded := 3 \<rparr>"

definition example_status_line :: string where
  "example_status_line = ''HTTP/1.1 200 OK'' @ CRLF"

definition example_header_lines :: "string list" where
  "example_header_lines =
     [''Set-Cookie: a=1'' @ CRLF, ''Content-Type: text/html'' @ CRLF, ''set-cookie : b=2'' @ CRLF]"

definition example_prior :: ResponseData where
  "example_prior = addHeaderLine (addHeaderLine ResponseData_init (''HTTP/1.1 302 Found'' @ CRLF))
                     (''Location: /next'' @ CRLF)"

definition example_not_found :: transfer where
  "example_not_found =
     \<lparr> easy_init_ok = True, slist_append_ok = True,
       events = [HeaderLine (''HTTP/2 404'' @ CRLF), HeaderLine (''Content-Length: 3'' @ CRLF),
                 HeaderLine CRLF, BodyChunk ''abc'' True],
       transport_rc = CURLE_OK, response_code = 404, effective_url = None \<rparr>"

definition example_done :: FetchWorker where
  "example_done =
     (snd (run_sinks (events example_not_found) example_worker))
       \<lparr> resp := finish_response example_not_found
                   (resp (snd (run_sinks (events example_not_found) example_worker))) \<rparr>"

definition example_form :: napi_object where
  "example_form =
     [(''file'', Object [(''value'', Buffer ''hello'' ''hello''), (''filename'', Prim ''a.txt''),
                         (''contentType'', Prim ''text/plain'')] ''[object Object]''),
      (''name'', Prim ''x'')]"

definition example_mixed_form :: napi_object where
  "example_mixed_form = [(''b'', Prim ''x''), (''1'', Prim ''y'')]"

definition example_empty_file :: napi_object where
  "example_empty_file =
     [(''file'', Object [(''value'', Buffer [] []), (''filename'', Prim ''a.txt''),
                         (''contentType'', Prim ''text/plain'')] ''[object Object]'')]"

definition example_upper_options :: options where
  "example_upper_options = example_options\<lparr> opt_headers := Some [(''USER-AGENT'', Prim ''custom'')] \<rparr>"

definition example_aborted :: FetchWorker where
  "example_aborted = example_worker\<lparr> abortFlag := True \<rparr>"

section \<open>Properties of the sinks and of the transfer\<close>


lemma sint_small: "m < 2^63 \<Longrightarrow> sint (word_of_nat m :: 64 word) = int m"
  by (simp add: signed_of_nat signed_take_bit_int_eq_self)

lemma writeBody_abort: "abortFlag w \<Longrightarrow> writeBody w chunk ok = (0, w)"
  by (simp add: writeBody_def)

lemma writeBody_cap_step:
  assumes "\<not> streaming w" "0 \<le> maxBodySize w" "int (length (body (resp w)) + length chunk) > maxBodySize w"
  shows "writeBody w chunk ok = (0, w)"
proof (cases "length (body (resp w)) + length chunk < 2^63")
  case True
  then have "sint (word_of_nat (length (body (resp w)) + length chunk) :: 64 word)
             = int (length (body (resp w)) + length chunk)"
    by (rule sint_small)
  then show ?thesis using assms by (simp add: writeBody_def Let_def del: of_nat_add)
next
  case False
  then show ?thesis using assms by (simp add: writeBody_def Let_def vector_max_size_def)
qed

lemma writeBody_flags:
  "streaming (snd (writeBody w c ok)) = streaming w"
  "maxBodySize (snd (writeBody w c ok)) = maxBodySize w"
  "wantProgress (snd (writeBody w c ok)) = wantProgress w"
  by (simp_all add: writeBody_def Let_def)

lemma writeBody_inv:
  assumes "\<not> streaming w" "0 \<le> maxBodySize w" "int (length (body (resp w))) \<le> maxBodySize w"
  shows "int (length (body (resp (snd (writeBody w c ok))))) \<le> maxBodySize w"
proof (cases "int (length (body (resp w)) + length c) > maxBodySize w")
  case True
  then show ?thesis using assms writeBody_cap_step[of w c ok] by simp
next
  case False
  then show ?thesis using assms by (simp add: writeBody_def Let_def del: of_nat_add)
qed


lemma writeHeader_flags:
  "streaming (snd (writeHeader w l)) = streaming w"
  "maxBodySize (snd (writeHeader w l)) = maxBodySize w"
  "wantProgress (snd (writeHeader w l)) = wantProgress w"
  "abortFlag (snd (writeHeader w l)) = abortFlag w"
  by (simp_all add: writeHeader_def)

lemma addHeaderLine_body: "body (addHeaderLine r raw) = body r"
  by (simp add: addHeaderLine_def resetHop_def Let_def split: prod.splits)

lemma writeHeader_body: "body (resp (snd (writeHeader w l))) = body (resp w)"
  by (simp add: writeHeader_def addHeaderLine_body)

lemma onProgress_flags:
  "streaming (snd (onProgress w a b c d ok)) = streaming w"
  "maxBodySize (snd (onProgress w a b c d ok)) = maxBodySize w"
  "wantProgress (snd (onProgress w a b c d ok)) = wantProgress w"
  "abortFlag (snd (onProgress w a b c d ok)) = abortFlag w"
  "resp (snd (onProgress w a b c d ok)) = resp w"
  by (simp_all add: onProgress_def)

lemma writeBody_abortFlag: "abortFlag (snd (writeBody w c ok)) = abortFlag w"
  by (simp add: writeBody_def Let_def)

lemma dispatch_config:
  "streaming (snd (dispatch e w)) = streaming w \<and>
   maxBodySize (snd (dispatch e w)) = maxBodySize w \<and>
   wantProgress (snd (dispatch e w)) = wantProgress w"
proof (cases e)
  case CallAbort
  then show ?thesis by simp
next
  case (HeaderLine l)
  then show ?thesis using writeHeader_flags[of w l] by (simp add: case_prod_beta)
next
  case (BodyChunk c ok)
  then show ?thesis using writeBody_flags[of w c ok] by (simp add: case_prod_beta)
next
  case (ProgressTick a b c d ok)
  then show ?thesis using onProgress_flags[of w a b c d ok] by (simp add: case_prod_beta)
qed

lemma dispatch_abort_mono: "abortFlag w \<Longrightarrow> abortFlag (snd (dispatch e w))"
proof (cases e)
  case CallAbort
  then show ?thesis by simp
next
  case (HeaderLine l)
  assume "abortFlag w"
  then show ?thesis using HeaderLine writeHeader_flags(4)[of w l] by (simp add: case_prod_beta)
next
  case (BodyChunk c ok)
  assume "abortFlag w"
  then show ?thesis using BodyChunk writeBody_abortFlag[of w c ok] by (simp add: case_prod_beta)
next
  case (ProgressTick a b c d ok)
  assume "abortFlag w"
  then show ?thesis
    using ProgressTick onProgress_flags(4)[of w a b c d ok] by (simp add: case_prod_beta)
qed

lemma dispatch_body_cap:
  assumes "\<not> streaming w" "0 \<le> maxBodySize w" "int (length (body (resp w))) \<le> maxBodySize w"
  shows "int (length (body (resp (snd (dispatch e w))))) \<le> maxBodySize w"
proof (cases e)
  case CallAbort
  then show ?thesis using assms by simp
next
  case (HeaderLine l)
  then show ?thesis using assms writeHeader_body[of w l] by (simp add: case_prod_beta)
next
  case (BodyChunk c ok)
  then show ?thesis using assms writeBody_inv[of w c ok] by (simp add: case_prod_beta)
next
  case (ProgressTick a b c d ok)
  then show ?thesis
    using assms onProgress_flags(5)[of w a b c d ok] by (simp add: case_prod_beta)
qed

lemma run_sinks_Cons:
  "run_sinks (e # es) w =
     (if fst (dispatch e w) = None then run_sinks es (snd (dispatch e w)) else dispatch e w)"
  by (cases "dispatch e w") (auto split: option.splits)

lemma run_sinks_config:
  "streaming (snd (run_sinks es w)) = streaming w \<and>
   maxBodySize (snd (run_sinks es w)) = maxBodySize w \<and>
   wantProgress (snd (run_sinks es w)) = wantProgress w"
proof (induction es arbitrary: w)
  case Nil
  then show ?case by simp
next
  case (Cons e es)
  show ?case
    using Cons.IH[of "snd (dispatch e w)"] dispatch_config[of e w]
    by (simp only: run_sinks_Cons split: if_splits) simp
qed

lemma run_sinks_abort_mono: "abortFlag w \<Longrightarrow> abortFlag (snd (run_sinks es w))"
proof (induction es arbitrary: w)
  case Nil
  then show ?case by simp
next
  case (Cons e es)
  show ?case
    using Cons.IH[of "snd (dispatch e w)"] dispatch_abort_mono[OF Cons.prems, of e]
    by (simp only: run_sinks_Cons split: if_splits) simp
qed

lemma run_sinks_append:
  "run_sinks es1 w = (None, w1) \<Longrightarrow> run_sinks (es1 @ es2) w = run_sinks es2 w1"
proof (induction es1 arbitrary: w)
  case Nil
  then show ?case by simp
next
  case (Cons e es)
  then show ?case
    by (cases "dispatch e w") (auto split: option.splits)
qed

lemma run_sinks_body_cap:
  assumes "\<not> streaming w" "0 \<le> maxBodySize w" "int (length (body (resp w))) \<le> maxBodySize w"
  shows "int (length (body (resp (snd (run_sinks es w))))) \<le> maxBodySize w"
  using assms
proof (induction es arbitrary: w)
  case Nil
  then show ?case by simp
next
  case (Cons e es)
  have "int (length (body (resp (snd (dispatch e w))))) \<le> maxBodySize w"
    using Cons.prems by (rule dispatch_body_cap)
  then show ?case
    using Cons.IH[of "snd (dispatch e w)"] dispatch_config[of e w] Cons.prems
    by (simp only: run_sinks_Cons split: if_splits) simp
qed


text \<open>
  C1. A body-sink invocation that finds the cancellation token set returns 0 and leaves
  the worker, hence the accumulated response body, as it was. When the token is set by
  the time \<open>curl_easy_perform\<close> returns, in particular when the abort function is
  called while the transfer runs, \<open>Execute\<close> throws "request aborted" whatever code the
  transport layer returned, \<open>CURLE_OK\<close> included; that message differs from the message
  of every transport error.
\<close>

theorem cancellation_aborts:
  "(abortFlag wa \<longrightarrow> writeBody wa chunk ok = (0, wa))
   \<and> (easy_init_ok t \<and> slist_append_ok t
        \<and> abortFlag (snd (curl_easy_perform (events t) (transport_rc t) w))
        \<longrightarrow> Execute t w = Inl RequestAborted)
   \<and> (easy_init_ok t \<and> slist_append_ok t
        \<and> events t = es1 @ CallAbort # es2 \<and> fst (run_sinks es1 w) = None
        \<longrightarrow> Execute t w = Inl RequestAborted)
   \<and> what strerror RequestAborted \<noteq> what strerror (CurlPerformError rc)"
proof -
  have sink: "abortFlag wa \<longrightarrow> writeBody wa chunk ok = (0, wa)"
    by (simp add: writeBody_abort)
  have exec: "Execute t w = Inl RequestAborted"
    if "easy_init_ok t" "slist_append_ok t"
       "abortFlag (snd (curl_easy_perform (events t) (transport_rc t) w))" for t :: transfer
    using that by (simp add: Execute_def case_prod_beta)
  have during: "Execute t w = Inl RequestAborted"
    if ok: "easy_init_ok t" "slist_append_ok t"
      and ev: "events t = es1 @ CallAbort # es2" and pre: "fst (run_sinks es1 w) = None"
  proof -
    obtain w1 where w1: "run_sinks es1 w = (None, w1)"
      using pre by (cases "run_sinks es1 w") simp
    have "run_sinks (events t) w = run_sinks es2 (w1\<lparr> abortFlag := True \<rparr>)"
      using run_sinks_append[OF w1, of "CallAbort # es2"] ev by simp
    moreover have "abortFlag (snd (run_sinks es2 (w1\<lparr> abortFlag := True \<rparr>)))"
      by (rule run_sinks_abort_mono) simp
    ultimately have "abortFlag (snd (curl_easy_perform (events t) (transport_rc t) w))"
      by (simp add: curl_easy_perform_def case_prod_beta split: option.splits)
    then show ?thesis by (rule exec[OF ok(1) ok(2)])
  qed
  have msg: "what strerror RequestAborted \<noteq> what strerror (CurlPerformError rc)"
    by simp
  show ?thesis using sink exec during msg by blast
qed

theorem cancellation_aborts_witness:
  "abortFlag (example_worker\<lparr> abortFlag := True \<rparr>)
   \<and> writeBody (example_worker\<lparr> abortFlag := True \<rparr>) ''abc'' True
       = (0, example_worker\<lparr> abortFlag := True \<rparr>)
   \<and> easy_init_ok (example_transfer [HeaderLine ''HTTP/1.1 200 OK'', CallAbort])
   \<and> slist_append_ok (example_transfer [HeaderLine ''HTTP/1.1 200 OK'', CallAbort])
   \<and> events (example_transfer [HeaderLine ''HTTP/1.1 200 OK'', CallAbort])
       = [HeaderLine ''HTTP/1.1 200 OK''] @ CallAbort # []
   \<and> fst (run_sinks [HeaderLine ''HTTP/1.1 200 OK''] example_worker) = None
   \<and> fst (curl_easy_perform [HeaderLine ''HTTP/1.1 200 OK'', CallAbort] CURLE_OK example_worker)
       = CURLE_OK
   \<and> Execute (example_transfer [HeaderLine ''HTTP/1.1 200 OK'', CallAbort]) example_worker
       = Inl RequestAborted"
proof -
  have ab: "abortFlag (example_worker\<lparr> abortFlag := True \<rparr>)"
    by simp
  have ok: "easy_init_ok (example_transfer [HeaderLine ''HTTP/1.1 200 OK'', CallAbort])"
    "slist_append_ok (example_transfer [HeaderLine ''HTTP/1.1 200 OK'', CallAbort])"
    "events (example_transfer [HeaderLine ''HTTP/1.1 200 OK'', CallAbort])
       = [HeaderLine ''HTTP/1.1 200 OK''] @ CallAbort # []"
    by (simp_all add: example_transfer_def)
  have pre: "fst (run_sinks [HeaderLine ''HTTP/1.1 200 OK''] example_worker) = None"
    by (simp add: writeHeader_def)
  have rc: "fst (curl_easy_perform [HeaderLine ''HTTP/1.1 200 OK'', CallAbort] CURLE_OK
                   example_worker) = CURLE_OK"
    by (simp add: curl_easy_perform_def writeHeader_def)
  show ?thesis
    using ab ok pre rc
      cancellation_aborts[where wa = "example_worker\<lparr> abortFlag := True \<rparr>"
        and chunk = "''abc''" and ok = True and w = example_worker
        and t = "example_transfer [HeaderLine ''HTTP/1.1 200 OK'', CallAbort]"
        and ?es1.0 = "[HeaderLine ''HTTP/1.1 200 OK'']" and ?es2.0 = "[]"]
    by blast
qed

text \<open>
  C3. With \<open>maxBodySize_ = K\<close>, \<open>K \<ge> 0\<close>, and no streaming consumer, a body that
  holds at most \<open>K\<close> bytes holds at most \<open>K\<close> bytes after any body-sink invocation and
  after any sequence of events of a transfer. An invocation whose chunk would push the
  total past \<open>K\<close> returns 0 with the worker unchanged, and \<open>Execute\<close> ends with an
  exception: the write error of the transport layer, or "request aborted" when the token
  is set as well.
\<close>

theorem body_size_cap:
  assumes "\<not> streaming w" and "0 \<le> maxBodySize w"
    and "int (length (body (resp w))) \<le> maxBodySize w"
  shows "int (length (body (resp (snd (writeBody w chunk ok))))) \<le> maxBodySize w
    \<and> int (length (body (resp (snd (run_sinks es w))))) \<le> maxBodySize w
    \<and> (run_sinks es1 w = (None, w1)
         \<and> int (length (body (resp w1)) + length chunk) > maxBodySize w
       \<longrightarrow> writeBody w1 chunk ok = (0, w1)
           \<and> (easy_init_ok t \<and> slist_append_ok t \<and> events t = es1 @ BodyChunk chunk ok # es2
               \<longrightarrow> Execute t w = Inl (if abortFlag w1 then RequestAborted
                                        else CurlPerformError CURLE_WRITE_ERROR)))"
proof -
  have step: "int (length (body (resp (snd (writeBody w chunk ok))))) \<le> maxBodySize w"
    using assms by (rule writeBody_inv)
  have run: "int (length (body (resp (snd (run_sinks es w))))) \<le> maxBodySize w"
    using assms by (rule run_sinks_body_cap)
  have over: "writeBody w1 chunk ok = (0, w1)
           \<and> (easy_init_ok t \<and> slist_append_ok t \<and> events t = es1 @ BodyChunk chunk ok # es2
               \<longrightarrow> Execute t w = Inl (if abortFlag w1 then RequestAborted
                                        else CurlPerformError CURLE_WRITE_ERROR))"
    if pre: "run_sinks es1 w = (None, w1)"
      and big: "int (length (body (resp w1)) + length chunk) > maxBodySize w"
  proof -
    have w1: "w1 = snd (run_sinks es1 w)" using pre by simp
    have cfg: "\<not> streaming w1" "maxBodySize w1 = maxBodySize w"
      using run_sinks_config[of es1 w] assms(1) by (simp_all add: w1)
    have cap: "int (length (body (resp w1))) \<le> maxBodySize w"
      unfolding w1 using assms by (rule run_sinks_body_cap)
    have zero: "writeBody w1 chunk ok = (0, w1)"
      using cfg assms(2) big by (intro writeBody_cap_step) simp_all
    have ne: "chunk \<noteq> []" using cap big by auto
    have "run_sinks (es1 @ BodyChunk chunk ok # es2) w = (Some CURLE_WRITE_ERROR, w1)"
      using run_sinks_append[OF pre, of "BodyChunk chunk ok # es2"] zero ne by simp
    then have "Execute t w = Inl (if abortFlag w1 then RequestAborted
                                  else CurlPerformError CURLE_WRITE_ERROR)"
      if "easy_init_ok t" "slist_append_ok t" "events t = es1 @ BodyChunk chunk ok # es2"
      using that by (simp add: Execute_def curl_easy_perform_def)
    then show ?thesis using zero by blast
  qed
  show ?thesis using step run over by blast
qed

theorem body_size_cap_witness:
  "\<not> streaming example_worker \<and> 0 \<le> maxBodySize example_worker
   \<and> int (length (body (resp example_worker))) \<le> maxBodySize example_worker
   \<and> run_sinks [BodyChunk ''abc'' True] example_worker = (None, example_loaded)
   \<and> int (length (body (resp example_loaded)) + length ''de'') > maxBodySize example_worker
   \<and> easy_init_ok (example_transfer [BodyChunk ''abc'' True, BodyChunk ''de'' True])
   \<and> slist_append_ok (example_transfer [BodyChunk ''abc'' True, BodyChunk ''de'' True])
   \<and> events (example_transfer [BodyChunk ''abc'' True, BodyChunk ''de'' True])
       = [BodyChunk ''abc'' True] @ BodyChunk ''de'' True # []
   \<and> writeBody example_loaded ''de'' True = (0, example_loaded)
   \<and> Execute (example_transfer [BodyChunk ''abc'' True, BodyChunk ''de'' True]) example_worker
       = Inl (if abortFlag example_loaded then RequestAborted
              else CurlPerformError CURLE_WRITE_ERROR)
   \<and> \<not> abortFlag example_loaded"
proof -
  have a: "\<not> streaming example_worker" "0 \<le> maxBodySize example_worker"
    "int (length (body (resp example_worker))) \<le> maxBodySize example_worker"
    by (simp_all add: example_worker_def example_options_def FetchWorker_new_def
        ResponseData_init_def)
  have b: "run_sinks [BodyChunk ''abc'' True] example_worker = (None, example_loaded)"
    by (simp add: example_loaded_def example_worker_def example_options_def FetchWorker_new_def
        ResponseData_init_def writeBody_def vector_max_size_def)
  have c: "int (length (body (resp example_loaded)) + length ''de'') > maxBodySize example_worker"
    by (simp add: example_loaded_def example_worker_def example_options_def FetchWorker_new_def)
  have d: "\<not> abortFlag example_loaded"
    by (simp add: example_loaded_def example_worker_def example_options_def FetchWorker_new_def)
  have ok: "easy_init_ok (example_transfer [BodyChunk ''abc'' True, BodyChunk ''de'' True])"
    "slist_append_ok (example_transfer [BodyChunk ''abc'' True, BodyChunk ''de'' True])"
    "events (example_transfer [BodyChunk ''abc'' True, BodyChunk ''de'' True])
       = [BodyChunk ''abc'' True] @ BodyChunk ''de'' True # []"
    by (simp_all add: example_transfer_def)
  show ?thesis
    using a b c d ok
      body_size_cap[OF a, where chunk = "''de''" and ok = True
        and ?es1.0 = "[BodyChunk ''abc'' True]" and ?w1.0 = example_loaded
        and t = "example_transfer [BodyChunk ''abc'' True, BodyChunk ''de'' True]"
        and ?es2.0 = "[]"]
    by blast
qed

text \<open>
  C2 fails on the header sink. With the cancellation token set, \<open>writeHeader\<close> on the
  8 bytes of \<open>X-A: 1\<close> CR LF returns 8, the count it was given, so the transport layer
  goes on, and the line is accumulated. The body sink returns 0 and the progress sink 1
  in the same state.
\<close>

theorem header_sink_ignores_abort:
  "abortFlag example_aborted
   \<and> fst (writeHeader example_aborted (''X-A: 1'' @ CRLF)) = 8
   \<and> fst (dispatch (HeaderLine (''X-A: 1'' @ CRLF)) example_aborted) = None
   \<and> headers (resp (snd (writeHeader example_aborted (''X-A: 1'' @ CRLF)))) ''x-a'' = Some [''1'']
   \<and> fst (writeBody example_aborted ''abc'' True) = 0
   \<and> fst (onProgress example_aborted 3 0 0 0 True) = 1"
proof -
  have a: "abortFlag example_aborted"
    by (simp add: example_aborted_def)
  have h: "headers (resp (snd (writeHeader example_aborted (''X-A: 1'' @ CRLF)))) ''x-a''
           = Some [''1'']"
    by code_simp
  show ?thesis
    using a h by (simp add: writeHeader_def writeBody_def onProgress_def CRLF_def)
qed

section \<open>Properties of the header accumulator\<close>

lemma tolower_idem: "tolower_c (tolower_c c) = tolower_c c"
  by (simp add: tolower_c_def upper_letters_def lower_letters_def)

lemma tolower_not_upper: "\<not> isupper_c (tolower_c c)"
  by (simp add: tolower_c_def isupper_c_def upper_letters_def lower_letters_def)

lemma lower_idem: "lower (lower s) = lower s"
  by (simp add: lower_def tolower_idem)

lemma lower_no_upper: "c \<in> set (lower s) \<Longrightarrow> \<not> isupper_c c"
  by (auto simp: lower_def tolower_not_upper)

lemma addHeaderLine_well_formed:
  "well_formed_header raw \<Longrightarrow>
   addHeaderLine r raw = r\<lparr> headers := push_header (headers r) (line_key raw) (line_val raw) \<rparr>"
  by (auto simp: well_formed_header_def is_status_line_def addHeaderLine_def line_key_def
      line_val_def Let_def)

lemma addHeaderLine_status_line:
  "is_status_line raw \<Longrightarrow>
   addHeaderLine r raw =
     r\<lparr> headers := Map.empty,
        status := fst (parse_status_line (strip_crlf raw) (status r)),
        statusText := snd (parse_status_line (strip_crlf raw) (status r)) \<rparr>"
  by (auto simp: is_status_line_def addHeaderLine_def resetHop_def Let_def split: prod.splits)

lemma fold_well_formed_headers:
  "\<forall>l\<in>set ls. well_formed_header l \<Longrightarrow>
   headers (foldl addHeaderLine r ls) k =
     (if k \<in> line_key ` set ls
      then Some ((case headers r k of None \<Rightarrow> [] | Some vs \<Rightarrow> vs)
                 @ map line_val (filter (\<lambda>l. line_key l = k) ls))
      else headers r k)"
proof (induction ls arbitrary: r)
  case Nil
  then show ?case by simp
next
  case (Cons l ls)
  have step: "addHeaderLine r l
              = r\<lparr> headers := push_header (headers r) (line_key l) (line_val l) \<rparr>"
    using Cons.prems by (simp add: addHeaderLine_well_formed)
  have rest: "\<forall>l\<in>set ls. well_formed_header l"
    using Cons.prems by simp
  have none: "filter (\<lambda>x. line_key x = k) ls = []" if "k \<notin> line_key ` set ls"
    using that by (auto simp: filter_empty_conv)
  show ?case
    using none by (simp add: step Cons.IH[OF rest] push_header_def split: option.splits)
qed

lemma fold_well_formed_status:
  "\<forall>l\<in>set ls. well_formed_header l \<Longrightarrow>
   status (foldl addHeaderLine r ls) = status r
   \<and> statusText (foldl addHeaderLine r ls) = statusText r"
proof (induction ls arbitrary: r)
  case Nil
  then show ?case by simp
next
  case (Cons l ls)
  then show ?case by (simp add: addHeaderLine_well_formed)
qed

lemma sum_length_filter_keys:
  "finite A \<Longrightarrow> f ` set ls \<subseteq> A \<Longrightarrow> (\<Sum>k\<in>A. length (filter (\<lambda>l. f l = k) ls)) = length ls"
proof (induction ls)
  case Nil
  then show ?case by simp
next
  case (Cons l ls)
  have "(\<Sum>k\<in>A. length (filter (\<lambda>x. f x = k) (l # ls)))
        = (\<Sum>k\<in>A. (if f l = k then 1 else 0) + length (filter (\<lambda>x. f x = k) ls))"
    by (rule sum.cong) auto
  also have "\<dots> = (\<Sum>k\<in>A. (if f l = k then 1 else 0)) + (\<Sum>k\<in>A. length (filter (\<lambda>x. f x = k) ls))"
    by (simp add: sum.distrib)
  also have "(\<Sum>k\<in>A. (if f l = k then 1 else 0 :: nat)) = 1"
    using Cons.prems by (simp add: sum.delta)
  finally show ?case using Cons by simp
qed

lemma dom_grouped: "dom (grouped ls) = line_key ` set ls"
  by (auto simp: grouped_def dom_def)

lemma grouped_count: "(\<Sum>k\<in>dom (grouped ls). length (the (grouped ls k))) = length ls"
proof -
  have "(\<Sum>k\<in>line_key ` set ls. length (the (grouped ls k)))
        = (\<Sum>k\<in>line_key ` set ls. length (filter (\<lambda>l. line_key l = k) ls))"
    by (rule sum.cong) (auto simp: grouped_def)
  also have "\<dots> = length ls"
    by (rule sum_length_filter_keys) auto
  finally show ?thesis by (simp add: dom_grouped)
qed

text \<open>
  C5. After a status line (a line that starts with \<open>HTTP/\<close>) followed by \<open>N\<close>
  header lines, each of which is not itself a status line, contains a colon and has a
  name that is not empty once trimmed, the header mapping is exactly the grouping of
  those \<open>N\<close> lines: each key is the lower-cased, trimmed name, its values are the
  trimmed values of the lines with that name in arrival order, and the values number
  \<open>N\<close> in all. Nothing of the headers held before the status line remains.
  \<open>resetHop\<close> leaves status code and text alone; they then take the values parsed from
  the status line, which for \<open>HTTP/1.1 200 OK\<close> are 200 and \<open>OK\<close> whatever the status
  was before.
\<close>

theorem header_block_accumulation:
  assumes "is_status_line sl" and "\<forall>l\<in>set ls. well_formed_header l"
  shows "headers (foldl addHeaderLine r (sl # ls)) = grouped ls
    \<and> (\<Sum>k\<in>dom (headers (foldl addHeaderLine r (sl # ls))).
          length (the (headers (foldl addHeaderLine r (sl # ls)) k))) = length ls
    \<and> headers (addHeaderLine r sl) = Map.empty
    \<and> status (resetHop r) = status r \<and> statusText (resetHop r) = statusText r
    \<and> status (foldl addHeaderLine r (sl # ls)) = fst (parse_status_line (strip_crlf sl) (status r))
    \<and> statusText (foldl addHeaderLine r (sl # ls))
        = snd (parse_status_line (strip_crlf sl) (status r))
    \<and> parse_status_line ''HTTP/1.1 200 OK'' (status r) = (200, ''OK'')"
proof -
  have pin: "parse_status_line ''HTTP/1.1 200 OK'' (status r) = (200, ''OK'')"
    by (simp add: parse_status_line_def extract_long_def isspace_c_def isdigit_c_def
        decimal_def digit_val_def trim_def LF_def)
  have hdrs: "headers (foldl addHeaderLine r (sl # ls)) = grouped ls"
    using assms
    by (simp add: addHeaderLine_status_line fold_well_formed_headers grouped_def fun_eq_iff)
  have cnt: "(\<Sum>k\<in>dom (headers (foldl addHeaderLine r (sl # ls))).
          length (the (headers (foldl addHeaderLine r (sl # ls)) k))) = length ls"
    unfolding hdrs by (rule grouped_count)
  have rest: "headers (addHeaderLine r sl) = Map.empty"
    "status (foldl addHeaderLine r (sl # ls)) = fst (parse_status_line (strip_crlf sl) (status r))"
    "statusText (foldl addHeaderLine r (sl # ls))
        = snd (parse_status_line (strip_crlf sl) (status r))"
    using assms by (simp_all add: addHeaderLine_status_line fold_well_formed_status)
  show ?thesis using hdrs cnt rest pin by (simp add: resetHop_def)
qed

theorem header_block_accumulation_witness:
  "is_status_line example_status_line
   \<and> list_all well_formed_header example_header_lines
   \<and> headers example_prior ''location'' = Some [''/next'']
   \<and> status example_prior = 302 \<and> statusText example_prior = ''Found''
   \<and> strip_crlf example_status_line = ''HTTP/1.1 200 OK''
   \<and> status (foldl addHeaderLine example_prior (example_status_line # example_header_lines))
       = 200
   \<and> statusText (foldl addHeaderLine example_prior (example_status_line # example_header_lines))
       = ''OK''
   \<and> headers (foldl addHeaderLine example_prior (example_status_line # example_header_lines))
       = grouped example_header_lines
   \<and> grouped example_header_lines ''set-cookie'' = Some [''a=1'', ''b=2'']
   \<and> grouped example_header_lines ''content-type'' = Some [''text/html'']
   \<and> grouped example_header_lines ''location'' = None
   \<and> (\<Sum>k\<in>dom (headers (foldl addHeaderLine example_prior
                       (example_status_line # example_header_lines))).
         length (the (headers (foldl addHeaderLine example_prior
                       (example_status_line # example_header_lines)) k))) = 3"
proof -
  have a: "is_status_line example_status_line"
    by code_simp
  have b: "\<forall>l\<in>set example_header_lines. well_formed_header l"
    by code_simp
  have c: "headers example_prior ''location'' = Some [''/next'']"
    by code_simp
  have d: "grouped example_header_lines ''set-cookie'' = Some [''a=1'', ''b=2'']"
    "grouped example_header_lines ''content-type'' = Some [''text/html'']"
    "grouped example_header_lines ''location'' = None"
    by code_simp+
  have e: "length example_header_lines = 3"
    by (simp add: example_header_lines_def)
  have b': "list_all well_formed_header example_header_lines"
    using b by (simp add: list_all_iff)
  have p: "status example_prior = 302" "statusText example_prior = ''Found''"
    by code_simp+
  have sl: "strip_crlf example_status_line = ''HTTP/1.1 200 OK''"
    by code_simp
  note T = header_block_accumulation[OF a b, of example_prior, unfolded e sl]
  have st: "status (foldl addHeaderLine example_prior
                      (example_status_line # example_header_lines)) = 200"
    "statusText (foldl addHeaderLine example_prior
                   (example_status_line # example_header_lines)) = ''OK''"
    using T by simp_all
  show ?thesis
    using a b' c d p sl st T by blast
qed

text \<open>
  C10, as amended. The header accumulator leaves its state unchanged on any non-empty line
  that does not start with \<open>HTTP/\<close> and lacks a colon, and on any line whose name part
  (the text before the first colon) trims to the empty string. Consequently, after any
  sequence of lines fed to a fresh accumulator, every key of the header mapping is
  non-empty and in lower case: it contains no upper-case letter and lower-casing leaves
  it as it is, while characters that are not letters stay in it.
\<close>

theorem header_keys_lower_case:
  "(strip_crlf raw \<noteq> [] \<and> \<not> is_status_line raw \<and> CHR '':'' \<notin> set (strip_crlf raw)
      \<longrightarrow> addHeaderLine r raw = r)
   \<and> (trim (takeWhile (\<lambda>c. c \<noteq> CHR '':'') (strip_crlf blank)) = []
      \<longrightarrow> addHeaderLine r blank = r)
   \<and> (\<forall>k\<in>dom (headers (foldl addHeaderLine ResponseData_init ls)).
         k \<noteq> [] \<and> lower k = k \<and> (\<forall>c\<in>set k. \<not> isupper_c c))"
proof -
  have no_colon: "addHeaderLine r raw = r"
    if "strip_crlf raw \<noteq> []" "\<not> is_status_line raw" "CHR '':'' \<notin> set (strip_crlf raw)"
    using that by (simp add: addHeaderLine_def is_status_line_def Let_def)
  have no_name: "addHeaderLine r blank = r"
    if blank: "trim (takeWhile (\<lambda>c. c \<noteq> CHR '':'') (strip_crlf blank)) = []"
  proof (cases "take 5 (strip_crlf blank) = ''HTTP/''")
    case True
    then obtain rest where "strip_crlf blank = ''HTTP/'' @ rest"
      by (metis append_take_drop_id)
    then have "trim (takeWhile (\<lambda>c. c \<noteq> CHR '':'') (strip_crlf blank)) \<noteq> []"
      by (simp add: trim_def isspace_c_def)
    then show ?thesis using blank by simp
  next
    case False
    then show ?thesis
      using blank by (simp add: addHeaderLine_def header_key_def lower_def Let_def)
  qed
  have step: "\<forall>k\<in>dom (headers (addHeaderLine r' l)). k \<noteq> [] \<and> lower k = k"
    if "\<forall>k\<in>dom (headers r'). k \<noteq> [] \<and> lower k = k" for r' l
    using that
    by (auto simp: addHeaderLine_def resetHop_def push_header_def header_key_def lower_idem
        Let_def split: prod.splits if_splits)
  have inv: "\<forall>k\<in>dom (headers (foldl addHeaderLine r' ls)). k \<noteq> [] \<and> lower k = k"
    if "\<forall>k\<in>dom (headers r'). k \<noteq> [] \<and> lower k = k" for r'
    using that
  proof (induction ls arbitrary: r')
    case Nil
    then show ?case by simp
  next
    case (Cons l ls)
    show ?case using Cons.IH[OF step[OF Cons.prems, of l]] by simp
  qed
  have keys: "\<forall>k\<in>dom (headers (foldl addHeaderLine ResponseData_init ls)).
                k \<noteq> [] \<and> lower k = k \<and> (\<forall>c\<in>set k. \<not> isupper_c c)"
  proof
    fix k assume k: "k \<in> dom (headers (foldl addHeaderLine ResponseData_init ls))"
    have "k \<noteq> [] \<and> lower k = k"
      using inv[of ResponseData_init] k by (simp add: ResponseData_init_def)
    moreover from this have "\<forall>c\<in>set k. \<not> isupper_c c"
      using lower_no_upper[of _ k] by auto
    ultimately show "k \<noteq> [] \<and> lower k = k \<and> (\<forall>c\<in>set k. \<not> isupper_c c)" by simp
  qed
  show ?thesis using no_colon no_name keys by blast
qed

text \<open>
  C10 as stated fails twice. \<open>HTTP/1.1 200 OK\<close> is a non-empty line that lacks a
  colon, and it is not dropped: it clears the headers and sets the status. And the key
  \<open>set-cookie\<close>, which the line \<open>Set-Cookie: a=1\<close> leaves in the header mapping, does
  not consist of lower-case characters only: its hyphen is no lower-case character, and
  lower-casing keeps it.
\<close>

theorem status_line_kept_and_hyphen_key:
  "strip_crlf ''HTTP/1.1 200 OK'' \<noteq> []
   \<and> CHR '':'' \<notin> set (strip_crlf ''HTTP/1.1 200 OK'')
   \<and> addHeaderLine example_prior ''HTTP/1.1 200 OK'' \<noteq> example_prior
   \<and> ''set-cookie'' \<in> dom (headers (foldl addHeaderLine ResponseData_init example_header_lines))
   \<and> CHR ''-'' \<in> set ''set-cookie'' \<and> CHR ''-'' \<notin> set lower_letters
   \<and> tolower_c (CHR ''-'') = CHR ''-''"
proof -
  have k: "headers (foldl addHeaderLine ResponseData_init example_header_lines) ''set-cookie''
           = Some [''a=1'', ''b=2'']"
    by code_simp
  have key: "''set-cookie'' \<in> dom (headers (foldl addHeaderLine ResponseData_init
                                             example_header_lines))"
    using k by blast
  have hy: "CHR ''-'' \<in> set ''set-cookie''" "CHR ''-'' \<notin> set lower_letters"
    "tolower_c (CHR ''-'') = CHR ''-''"
    by code_simp+
  have a: "strip_crlf ''HTTP/1.1 200 OK'' \<noteq> []" "CHR '':'' \<notin> set (strip_crlf ''HTTP/1.1 200 OK'')"
    by code_simp+
  have "status (addHeaderLine example_prior ''HTTP/1.1 200 OK'') = 200"
    by code_simp
  moreover have "status example_prior = 302"
    by code_simp
  ultimately have "addHeaderLine example_prior ''HTTP/1.1 200 OK'' \<noteq> example_prior"
    by auto
  then show ?thesis using a key hy by blast
qed

theorem header_keys_lower_case_witness:
  "strip_crlf (''no colon here'' @ CRLF) \<noteq> []
   \<and> \<not> is_status_line (''no colon here'' @ CRLF)
   \<and> CHR '':'' \<notin> set (strip_crlf (''no colon here'' @ CRLF))
   \<and> addHeaderLine example_prior (''no colon here'' @ CRLF) = example_prior
   \<and> trim (takeWhile (\<lambda>c. c \<noteq> CHR '':'') (strip_crlf (''  : value'' @ CRLF))) = []
   \<and> addHeaderLine example_prior (''  : value'' @ CRLF) = example_prior
   \<and> ''set-cookie'' \<in> dom (headers (foldl addHeaderLine ResponseData_init example_header_lines))
   \<and> ''set-cookie'' \<noteq> [] \<and> lower ''set-cookie'' = ''set-cookie''
   \<and> list_all (\<lambda>c. \<not> isupper_c c) ''set-cookie''"
proof -
  have a: "strip_crlf (''no colon here'' @ CRLF) \<noteq> []"
    "\<not> is_status_line (''no colon here'' @ CRLF)"
    "CHR '':'' \<notin> set (strip_crlf (''no colon here'' @ CRLF))"
    by code_simp+
  have b: "trim (takeWhile (\<lambda>c. c \<noteq> CHR '':'') (strip_crlf (''  : value'' @ CRLF))) = []"
    by code_simp
  have c: "headers (foldl addHeaderLine ResponseData_init example_header_lines) ''set-cookie''
           = Some [''a=1'', ''b=2'']"
    by code_simp
  have d: "''set-cookie'' \<in> dom (headers (foldl addHeaderLine ResponseData_init
                                             example_header_lines))"
    using c by blast
  note T = header_keys_lower_case[where raw = "''no colon here'' @ CRLF" and r = example_prior
      and blank = "''  : value'' @ CRLF" and ls = example_header_lines]
  have e: "''set-cookie'' \<noteq> [] \<and> lower ''set-cookie'' = ''set-cookie''
           \<and> (\<forall>c\<in>set ''set-cookie''. \<not> isupper_c c)"
    using T d by blast
  then have f: "list_all (\<lambda>c. \<not> isupper_c c) ''set-cookie''"
    unfolding list_all_iff by blast
  show ?thesis
    using a b d e f T by blast
qed

lemma parse_status_line_text: "snd (parse_status_line line st) = snd (parse_status_line line 0)"
  unfolding parse_status_line_def Let_def
  by (simp only: if_distrib[of snd] snd_conv case_prod_beta)

lemma addHeaderLine_statusText:
  "statusText (addHeaderLine r raw)
   = (if is_status_line raw \<and> strip_crlf raw \<noteq> [] then reason_phrase raw else statusText r)"
  using parse_status_line_text[of "strip_crlf raw" "status r"]
  by (auto simp: addHeaderLine_def is_status_line_def reason_phrase_def resetHop_def Let_def
      split: prod.splits)

lemma fold_statusText_empty:
  "statusText r = [] \<Longrightarrow> \<forall>l\<in>set ls. reason_phrase l = [] \<Longrightarrow>
   statusText (foldl addHeaderLine r ls) = []"
proof (induction ls arbitrary: r)
  case Nil
  then show ?case by simp
next
  case (Cons l ls)
  have "statusText (addHeaderLine r l) = []"
    using Cons.prems by (simp add: addHeaderLine_statusText)
  then show ?case using Cons by simp
qed

lemma dispatch_statusText:
  "statusText (resp (snd (dispatch e w)))
   = (case e of HeaderLine l \<Rightarrow> statusText (addHeaderLine (resp w) l) | _ \<Rightarrow> statusText (resp w))"
proof (cases e)
  case CallAbort
  then show ?thesis by simp
next
  case (HeaderLine l)
  then show ?thesis by (simp add: writeHeader_def)
next
  case (BodyChunk c ok)
  then show ?thesis by (simp add: writeBody_def Let_def)
next
  case (ProgressTick a b c d ok)
  then show ?thesis by (simp add: onProgress_def)
qed

lemma run_sinks_statusText_empty:
  "fst (run_sinks es w) = None \<Longrightarrow> statusText (resp w) = [] \<Longrightarrow>
   \<forall>l\<in>set (header_lines es). reason_phrase l = [] \<Longrightarrow>
   statusText (resp (snd (run_sinks es w))) = []"
proof (induction es arbitrary: w)
  case Nil
  then show ?case by simp
next
  case (Cons e es)
  have none: "fst (dispatch e w) = None" and rest: "fst (run_sinks es (snd (dispatch e w))) = None"
    using Cons.prems(1) by (simp_all del: run_sinks.simps add: run_sinks_Cons split: if_splits)
  have empty: "statusText (resp (snd (dispatch e w))) = []"
    using Cons.prems(2,3)
    by (cases e) (simp_all del: dispatch.simps add: dispatch_statusText addHeaderLine_statusText)
  have lines: "\<forall>l\<in>set (header_lines es). reason_phrase l = []"
    using Cons.prems(3) by (cases e) simp_all
  show ?case
    using Cons.IH[OF rest empty lines] none by (simp del: run_sinks.simps add: run_sinks_Cons)
qed

lemma dispatch_stop_code: "fst (dispatch e w) = Some rc \<Longrightarrow> rc \<noteq> CURLE_OK"
  by (cases e) (auto simp: case_prod_beta split: if_splits)

lemma run_sinks_stop_code: "fst (run_sinks es w) = Some rc \<Longrightarrow> rc \<noteq> CURLE_OK"
proof (induction es arbitrary: w)
  case Nil
  then show ?case by simp
next
  case (Cons e es)
  then show ?case
    using dispatch_stop_code[of e w rc]
    by (simp del: run_sinks.simps add: run_sinks_Cons split: if_splits)
qed

text \<open>
  C9. When \<open>Execute\<close> succeeds, every event of the transfer was processed, and the
  status text handed to the caller is the one captured from the status lines when that
  is not empty, and otherwise the entry of the fixed table for the response code. In
  particular it is the table entry when no status line carried a reason phrase. The table
  has the ten entries listed and is empty for every other code.
\<close>

theorem status_text_synthesis:
  "(Execute t w = Inr w' \<longrightarrow>
      fst (run_sinks (events t) w) = None
      \<and> statusText (resp w') =
          (if statusText (resp (snd (run_sinks (events t) w))) = []
           then default_status_text (response_code t)
           else statusText (resp (snd (run_sinks (events t) w)))))
   \<and> (Execute t w = Inr w' \<and> statusText (resp w) = []
       \<and> (\<forall>l\<in>set (header_lines (events t)). reason_phrase l = [])
      \<longrightarrow> statusText (resp w') = default_status_text (response_code t))
   \<and> default_status_text 200 = ''OK'' \<and> default_status_text 201 = ''Created''
   \<and> default_status_text 204 = ''No Content''
   \<and> default_status_text 301 = ''Moved Permanently'' \<and> default_status_text 302 = ''Found''
   \<and> default_status_text 400 = ''Bad Request'' \<and> default_status_text 401 = ''Unauthorized''
   \<and> default_status_text 403 = ''Forbidden'' \<and> default_status_text 404 = ''Not Found''
   \<and> default_status_text 500 = ''Internal Server Error''
   \<and> (code \<notin> {200, 201, 204, 301, 302, 400, 401, 403, 404, 500}
      \<longrightarrow> default_status_text code = [])"
proof -
  have fin: "fst (run_sinks (events t) w) = None
      \<and> statusText (resp w') =
          (if statusText (resp (snd (run_sinks (events t) w))) = []
           then default_status_text (response_code t)
           else statusText (resp (snd (run_sinks (events t) w))))"
    if ex: "Execute t w = Inr w'"
  proof (cases "run_sinks (events t) w")
    case (Pair stop w1)
    show ?thesis
    proof (cases stop)
      case None
      then have "curl_easy_perform (events t) (transport_rc t) w = (transport_rc t, w1)"
        using Pair by (simp add: curl_easy_perform_def)
      then have "w' = w1\<lparr> resp := finish_response t (resp w1) \<rparr>"
        using ex by (simp add: Execute_def split: if_splits)
      then show ?thesis
        using Pair None by (simp add: finish_response_def Let_def split: option.splits)
    next
      case (Some rc)
      have "rc \<noteq> CURLE_OK"
        using run_sinks_stop_code[of "events t" w rc] Pair Some by simp
      moreover have "curl_easy_perform (events t) (transport_rc t) w = (rc, w1)"
        using Pair Some by (simp add: curl_easy_perform_def)
      ultimately show ?thesis
        using ex by (simp add: Execute_def split: if_splits)
    qed
  qed
  have table: "default_status_text 200 = ''OK''" "default_status_text 201 = ''Created''"
    "default_status_text 204 = ''No Content''"
    "default_status_text 301 = ''Moved Permanently''" "default_status_text 302 = ''Found''"
    "default_status_text 400 = ''Bad Request''" "default_status_text 401 = ''Unauthorized''"
    "default_status_text 403 = ''Forbidden''" "default_status_text 404 = ''Not Found''"
    "default_status_text 500 = ''Internal Server Error''"
    by (simp_all add: default_status_text_def)
  have other: "code \<notin> {200, 201, 204, 301, 302, 400, 401, 403, 404, 500}
      \<longrightarrow> default_status_text code = []"
    by (simp add: default_status_text_def)
  have none: "statusText (resp w') = default_status_text (response_code t)"
    if "Execute t w = Inr w'" "statusText (resp w) = []"
       "\<forall>l\<in>set (header_lines (events t)). reason_phrase l = []"
  proof -
    have "fst (run_sinks (events t) w) = None"
      using fin[OF that(1)] by simp
    then have "statusText (resp (snd (run_sinks (events t) w))) = []"
      using that(2,3) by (rule run_sinks_statusText_empty)
    then show ?thesis using fin[OF that(1)] by simp
  qed
  have A: "Execute t w = Inr w' \<longrightarrow>
      fst (run_sinks (events t) w) = None
      \<and> statusText (resp w') =
          (if statusText (resp (snd (run_sinks (events t) w))) = []
           then default_status_text (response_code t)
           else statusText (resp (snd (run_sinks (events t) w))))"
    using fin by (rule impI)
  have B: "Execute t w = Inr w' \<and> statusText (resp w) = []
       \<and> (\<forall>l\<in>set (header_lines (events t)). reason_phrase l = [])
      \<longrightarrow> statusText (resp w') = default_status_text (response_code t)"
    using none by (intro impI) (elim conjE)
  show ?thesis
    by (intro conjI A B table other)
qed

theorem status_text_synthesis_witness:
  "Execute example_not_found example_worker = Inr example_done
   \<and> statusText (resp example_worker) = []
   \<and> list_all (\<lambda>l. reason_phrase l = []) (header_lines (events example_not_found))
   \<and> fst (run_sinks (events example_not_found) example_worker) = None
   \<and> statusText (resp example_done) = default_status_text (response_code example_not_found)
   \<and> statusText (resp example_done) = ''Not Found''
   \<and> (418::int) \<notin> {200, 201, 204, 301, 302, 400, 401, 403, 404, 500}
   \<and> default_status_text 418 = []"
proof -
  have cfg: "\<not> abortFlag example_worker" "\<not> streaming example_worker"
    "maxBodySize example_worker = 4" "body (resp example_worker) = []"
    by (simp_all add: example_worker_def example_options_def FetchWorker_new_def
        ResponseData_init_def)
  have run: "fst (run_sinks (events example_not_found) example_worker) = None"
    using cfg
    by (simp add: example_not_found_def writeHeader_def writeBody_def addHeaderLine_body
        vector_max_size_def)
  have live: "\<not> abortFlag (snd (run_sinks (events example_not_found) example_worker))"
    using cfg
    by (simp add: example_not_found_def writeHeader_def writeBody_def addHeaderLine_body
        vector_max_size_def)
  have ok: "easy_init_ok example_not_found" "slist_append_ok example_not_found"
    "transport_rc example_not_found = CURLE_OK" "response_code example_not_found = 404"
    by (simp_all add: example_not_found_def)
  have ex: "Execute example_not_found example_worker = Inr example_done"
    using run live ok
    by (simp add: Execute_def curl_easy_perform_def example_done_def case_prod_beta
        split: option.splits)
  have a: "statusText (resp example_worker) = []"
    by code_simp
  have b: "\<forall>l\<in>set (header_lines (events example_not_found)). reason_phrase l = []"
    by code_simp
  have c: "(418::int) \<notin> {200, 201, 204, 301, 302, 400, 401, 403, 404, 500}"
    by simp
  note T = status_text_synthesis[where t = example_not_found and w = example_worker
      and w' = example_done and code = 418]
  have d: "statusText (resp example_done) = default_status_text (response_code example_not_found)"
    using T ex a b by blast
  have e: "default_status_text 418 = []"
    using T c by blast
  have f: "default_status_text 404 = ''Not Found''"
    using T by blast
  have b': "list_all (\<lambda>l. reason_phrase l = []) (header_lines (events example_not_found))"
    using b by (simp add: list_all_iff)
  have g: "statusText (resp example_done) = ''Not Found''"
    using d f by (simp add: ok)
  show ?thesis
    using ex a b' run c d e g by blast
qed

section \<open>Properties of the request headers and of the multipart encoder\<close>

text \<open>
  C4 fails on a header name in a third spelling. For the caller's mapping
  \<open>{"USER-AGENT": "custom"}\<close>, whose key matches \<open>User-Agent\<close> case-insensitively,
  the constructor leaves \<open>haveUserUA_\<close> false and the request carries both the default
  \<open>User-Agent\<close> line and the caller's.
\<close>

theorem upper_case_user_agent_duplicated:
  "lower ''USER-AGENT'' = lower ''User-Agent''
   \<and> request_headers (FetchWorker_new example_upper_options ''B'')
       = [''User-Agent: undici/6 naruyaizumi'', ''Accept-Encoding: br, gzip, deflate'',
          ''Connection: keep-alive'', ''Expect:'', ''USER-AGENT: custom'']"
  by code_simp

lemma flushDataPart_append:
  "NO_MATCH [] out \<Longrightarrow>
   flushDataPart name fn ct d tv isFile out = out @ flushDataPart name fn ct d tv isFile []"
  by (simp add: flushDataPart_def Let_def)

lemma flushDataPart_head:
  "part_for name (flushDataPart name fn ct d tv isFile [])"
  by (simp add: part_for_def flushDataPart_def Let_def prefix_def)

lemma appendField_shape:
  "\<exists>p. part_for name p
       \<and> (\<forall>b out. appendField formObj b out name = out @ ''--'' @ b @ CRLF @ p)"
proof (cases "Get formObj name")
  case (Buffer d t)
  show ?thesis
  proof (intro exI conjI allI)
    show "part_for name (flushDataPart name [] [] (Some d) [] True [])"
      by (rule flushDataPart_head)
    show "appendField formObj b out name
          = out @ ''--'' @ b @ CRLF @ flushDataPart name [] [] (Some d) [] True []" for b out
      using Buffer by (simp add: appendField_def flushDataPart_append)
  qed
next
  case (Object o' t)
  define payload where "payload = descriptor_payload (Get formObj name) o'"
  define fn where "fn = (if Has o' ''filename'' then Utf8Value (Get o' ''filename'') else [])"
  define ct where "ct = (if Has o' ''contentType'' then Utf8Value (Get o' ''contentType'') else [])"
  define isFile where "isFile = (case fst payload of Some d \<Rightarrow> d \<noteq> [] | None \<Rightarrow> False)"
  show ?thesis
  proof (intro exI conjI allI)
    show "part_for name (flushDataPart name fn ct (fst payload) (snd payload) isFile [])"
      by (rule flushDataPart_head)
    show "appendField formObj b out name
          = out @ ''--'' @ b @ CRLF @ flushDataPart name fn ct (fst payload) (snd payload) isFile []"
      for b out
      using Object
      by (simp add: appendField_def payload_def fn_def ct_def isFile_def Let_def
          flushDataPart_append)
  qed
next
  case (Prim t)
  show ?thesis
  proof (intro exI conjI allI)
    show "part_for name (flushDataPart name [] [] None t False [])"
      by (rule flushDataPart_head)
    show "appendField formObj b out name
          = out @ ''--'' @ b @ CRLF @ flushDataPart name [] [] None t False []" for b out
      using Prim by (simp add: appendField_def flushDataPart_append)
  qed
qed

lemma foldl_appendField_shape:
  "\<exists>parts. list_all2 part_for
              names parts
     \<and> (\<forall>b out. foldl (appendField formObj b) out names
                 = out @ concat (map (\<lambda>p. ''--'' @ b @ CRLF @ p) parts))"
proof (induction names)
  case Nil
  show ?case by (rule exI[of _ "[]"]) simp
next
  case (Cons name names)
  obtain p where p: "part_for name p"
      "\<And>b out. appendField formObj b out name = out @ ''--'' @ b @ CRLF @ p"
    using appendField_shape[of name formObj] by blast
  obtain parts where parts:
      "list_all2 part_for
         names parts"
      "\<And>b out. foldl (appendField formObj b) out names
                 = out @ concat (map (\<lambda>p. ''--'' @ b @ CRLF @ p) parts)"
    using Cons.IH by blast
  show ?case
    by (rule exI[of _ "p # parts"]) (simp add: p parts)
qed

text \<open>
  C7. For every field mapping, the empty one included, and whatever the output vector
  held before, the body that \<open>buildMultipartFromNapi\<close> produces ends with the closing
  marker: two dashes, the boundary token, two dashes, CR LF. For the empty mapping the
  body is the closing marker alone.
\<close>

theorem multipart_closing_marker:
  "suffix (''--'' @ boundary @ ''--'' @ CRLF) (buildMultipartFromNapi formObj outBody boundary)
   \<and> buildMultipartFromNapi [] [] boundary = ''--'' @ boundary @ ''--'' @ CRLF"
  by (simp add: buildMultipartFromNapi_def GetPropertyNames_def suffix_def)

text \<open>
  C8, as amended. The body is a function of the field mapping and the boundary token
  alone, and the token enters it only in the delimiter lines: for every field mapping
  there is one list of parts, each starting with the \<open>Content-Disposition\<close> header of
  its field, such that for every boundary token the body is the template of section 4.2
  filled with that token and those parts; two runs therefore differ only in the token.
  The parts stand in the order in which the runtime enumerates the properties: the keys
  that are array indices first, in ascending numeric order, then the other keys in
  insertion order. When no key is an array index this is the insertion order.
\<close>

theorem multipart_body_template:
  "(\<exists>parts. list_all2 part_for (GetPropertyNames formObj) parts
      \<and> (\<forall>b out. buildMultipartFromNapi formObj out b = out @ multipart_template b parts))
   \<and> GetPropertyNames formObj
       = sort_key decimal (filter is_array_index (map fst formObj))
         @ filter (\<lambda>k. \<not> is_array_index k) (map fst formObj)
   \<and> (list_all (\<lambda>k. \<not> is_array_index k) (map fst formObj)
       \<longrightarrow> GetPropertyNames formObj = map fst formObj)"
proof -
  obtain parts where parts:
      "list_all2 part_for
         (GetPropertyNames formObj) parts"
      "\<And>b out. foldl (appendField formObj b) out (GetPropertyNames formObj)
                 = out @ concat (map (\<lambda>p. ''--'' @ b @ CRLF @ p) parts)"
    using foldl_appendField_shape[of "GetPropertyNames formObj" formObj] by blast
  have shape: "\<exists>parts. list_all2 part_for (GetPropertyNames formObj) parts
      \<and> (\<forall>b out. buildMultipartFromNapi formObj out b = out @ multipart_template b parts)"
    by (rule exI[of _ parts]) (simp add: parts buildMultipartFromNapi_def multipart_template_def)
  have order: "GetPropertyNames formObj
       = sort_key decimal (filter is_array_index (map fst formObj))
         @ filter (\<lambda>k. \<not> is_array_index k) (map fst formObj)"
    by (simp add: GetPropertyNames_def)
  have plain: "GetPropertyNames formObj = map fst formObj"
    if "list_all (\<lambda>k. \<not> is_array_index k) (map fst formObj)"
  proof -
    have none: "\<forall>k\<in>set (map fst formObj). \<not> is_array_index k"
      using that unfolding list_all_iff .
    then have "filter is_array_index (map fst formObj) = []"
      by (simp only: filter_empty_conv)
    moreover have "filter (\<lambda>k. \<not> is_array_index k) (map fst formObj) = map fst formObj"
      using none by (simp only: filter_id_conv)
    ultimately show ?thesis
      by (simp add: GetPropertyNames_def)
  qed
  show ?thesis using shape order plain by blast
qed

theorem multipart_body_template_witness:
  "list_all (\<lambda>k. \<not> is_array_index k) (map fst example_form)
   \<and> map fst example_form = [''file'', ''name'']
   \<and> GetPropertyNames example_form = map fst example_form
   \<and> (\<exists>parts. list_all2 part_for (GetPropertyNames example_form) parts
        \<and> (\<forall>b out. buildMultipartFromNapi example_form out b
                     = out @ multipart_template b parts))"
proof -
  have a: "list_all (\<lambda>k. \<not> is_array_index k) (map fst example_form)"
    by code_simp
  have b: "map fst example_form = [''file'', ''name'']"
    by code_simp
  show ?thesis
    using a b multipart_body_template[of example_form] by blast
qed

text \<open>
  C8 as stated fails on a mapping with an array-index key that was not added first: for
  the fields \<open>b\<close> and \<open>1\<close>, added in this order, the part of \<open>1\<close> is emitted before
  the part of \<open>b\<close>.
\<close>

theorem array_index_key_emitted_first:
  "map fst example_mixed_form = [''b'', ''1'']
   \<and> GetPropertyNames example_mixed_form = [''1'', ''b'']
   \<and> buildMultipartFromNapi example_mixed_form [] ''B''
       = ''--B'' @ CRLF @ ''Content-Disposition: form-data; name='' @ DQ @ ''1'' @ DQ
         @ CRLF @ CRLF @ ''y'' @ CRLF
         @ ''--B'' @ CRLF @ ''Content-Disposition: form-data; name='' @ DQ @ ''b'' @ DQ
         @ CRLF @ CRLF @ ''x'' @ CRLF
         @ ''--B--'' @ CRLF"
  by code_simp

text \<open>
  C6 fails on a descriptor whose \<open>value\<close> is a byte buffer of length zero: the part has
  neither the \<open>filename\<close> attribute nor a \<open>Content-Type\<close> header, although the
  descriptor names both. A raw buffer of length zero is emitted as a file part.
\<close>

theorem empty_buffer_descriptor_sent_as_text:
  "buildMultipartFromNapi example_empty_file [] ''B''
     = ''--B'' @ CRLF @ ''Content-Disposition: form-data; name='' @ DQ @ ''file'' @ DQ
       @ CRLF @ CRLF @ CRLF @ ''--B--'' @ CRLF
   \<and> buildMultipartFromNapi [(''file'', Buffer [] [])] [] ''B''
     = ''--B'' @ CRLF @ ''Content-Disposition: form-data; name='' @ DQ @ ''file'' @ DQ
       @ ''; filename='' @ DQ @ ''blob'' @ DQ @ CRLF
       @ ''Content-Type: application/octet-stream'' @ CRLF @ CRLF @ CRLF @ ''--B--'' @ CRLF"
  by code_simp

end
